theory Spec2Isabelle
  imports
    Main
    "HOL-Library.Char_ord"
    "HOL-Library.List_Lexorder"
    "HOL-Library.Option_ord"
    "HOL-Library.Product_Lexorder"
begin

section \<open>Data model of \<open>cyclonedx/model/bom.py\<close>\<close>

text \<open>
  The embedding follows \<open>src/cyclonedx/model/bom.py\<close>. A \<open>BomRef\<close> is the opaque
  identifier string, a \<open>UUID\<close> is held as its canonical text, a \<open>datetime\<close> as
  microseconds of UTC. \<open>Tool\<close> and \<open>ExternalReference\<close> are declared in
  \<open>cyclonedx/model/__init__.py\<close>, which the sources do not carry; they stay type
  parameters \<open>'t\<close> and \<open>'e\<close> with a linear order.
\<close>

type_synonym bom_ref = string
type_synonym uuid = string
type_synonym datetime = int

text \<open>
  Modelled from the spec: the class \<open>Component\<close> (\<open>cyclonedx/model/component.py\<close>
  is missing). It has a name, an optional version, an identifier, an optional package
  reference, declared dependency identifiers and vulnerabilities.
\<close>

record component =
  name :: string
  version :: "string option"
  bom_ref :: bom_ref
  purl :: "string option"
  dependencies :: "bom_ref list"
  vulnerabilities :: "string list"

text \<open>
  Modelled from the spec: the class \<open>Service\<close> (\<open>cyclonedx/model/service.py\<close> is
  missing), with the identifier shape of a component.
\<close>

record service =
  service_name :: string
  service_version :: "string option"
  service_bom_ref :: bom_ref

text \<open>
  Modelled from the spec: equality and ordering of \<open>Component\<close> and \<open>Service\<close> are
  value-based, on the tuple of name, version and identifier; the hash is consistent with
  that equality.
\<close>

definition component_key :: "component \<Rightarrow> string \<times> string option \<times> string" where
  "component_key c = (name c, version c, bom_ref c)"

definition service_key :: "service \<Rightarrow> string \<times> string option \<times> string" where
  "service_key s = (service_name s, service_version s, service_bom_ref s)"

text \<open>Modelled from the spec: \<open>Component.has_vulnerabilities\<close> of the missing class.\<close>

definition component_has_vulnerabilities :: "component \<Rightarrow> bool" where
  "component_has_vulnerabilities c = (vulnerabilities c \<noteq> [])"

subsection \<open>\<open>sortedcontainers.SortedSet\<close>\<close>

text \<open>
  A \<open>SortedSet\<close> keeps a hash set for membership and a sorted list for iteration. It is
  held here as the list it iterates, with the key that decides both value equality and
  order. \<open>SortedList.add\<close> inserts to the right of the entries that are not greater;
  \<open>SortedSet.add\<close> inserts only a value that is not yet a member.
\<close>

fun sortedlist_add :: "('a \<Rightarrow> 'k::linorder) \<Rightarrow> 'a \<Rightarrow> 'a list \<Rightarrow> 'a list" where
  "sortedlist_add k x [] = [x]"
| "sortedlist_add k x (y # ys) =
     (if k x < k y then x # y # ys else y # sortedlist_add k x ys)"

definition contains :: "('a \<Rightarrow> 'k) \<Rightarrow> 'a list \<Rightarrow> 'a \<Rightarrow> bool" where
  "contains k s x = (k x \<in> set (map k s))"

definition add :: "('a \<Rightarrow> 'k::linorder) \<Rightarrow> 'a \<Rightarrow> 'a list \<Rightarrow> 'a list" where
  "add k x s = (if contains k s x then s else sortedlist_add k x s)"

text \<open>
  \<open>SortedSet(iterable)\<close>: of value-equal entries the first one stays, and the entries
  are iterated in key order.
\<close>

definition SortedSet :: "('a \<Rightarrow> 'k::linorder) \<Rightarrow> 'a list \<Rightarrow> 'a list" where
  "SortedSet k xs = foldl (\<lambda>s x. add k x s) [] xs"

subsection \<open>\<open>BomMetaData\<close> and \<open>Bom\<close>\<close>

text \<open>
  \<open>authors\<close>, \<open>manufacture\<close>, \<open>supplier\<close>, \<open>licenses\<close> and \<open>properties\<close> of
  \<open>BomMetaData\<close> are stored and read back only; no operation below looks at them.
\<close>

record 't BomMetaData =
  timestamp :: datetime
  tools :: "'t list"
  component :: "component option"

record ('t, 'e) Bom =
  uuid :: uuid
  metadata :: "'t BomMetaData"
  components :: "component list"
  services :: "service list"
  external_references :: "'e list"

text \<open>
  An argument of type \<open>Iterable\<close> is a sized collection (a list, a tuple, a set), which is
  falsy exactly when it is empty, or an iterator (a generator, \<open>iter(xs)\<close>), which has
  neither \<open>__bool__\<close> nor \<open>__len__\<close> and is truthy whatever it yields. Either way it
  yields its items once to the \<open>SortedSet\<close> built from it.
\<close>

datatype 'a iterable = Sized "'a list" | Iterator "'a list"

fun yielded :: "'a iterable \<Rightarrow> 'a list" where
  "yielded (Sized xs) = xs"
| "yielded (Iterator xs) = xs"

fun bool_iterable :: "'a iterable option \<Rightarrow> bool" where
  "bool_iterable None = False"
| "bool_iterable (Some (Sized xs)) = (xs \<noteq> [])"
| "bool_iterable (Some (Iterator xs)) = True"

text \<open>\<open>tools or []\<close>, as the items the chosen operand yields.\<close>

definition or_empty_list :: "'a iterable option \<Rightarrow> 'a list" where
  "or_empty_list arg =
     (case arg of None \<Rightarrow> [] | Some it \<Rightarrow> if bool_iterable (Some it) then yielded it else [])"

text \<open>
  \<open>BomMetaData.__init__\<close>. \<open>now\<close> is the reading of \<open>datetime.now(tz=timezone.utc)\<close>,
  \<open>ThisTool\<close> the constant of the missing \<open>cyclonedx.model\<close>. The last statement tests
  the argument \<open>tools\<close>, not the set built from it.
\<close>

definition BomMetaData_init ::
  "datetime \<Rightarrow> 't \<Rightarrow> ('t::linorder) iterable option \<Rightarrow> component option \<Rightarrow> 't BomMetaData" where
  "BomMetaData_init now ThisTool tools_arg component_arg =
     (let self = \<lparr> timestamp = now,
                   tools = SortedSet (\<lambda>t. t) (or_empty_list tools_arg),
                   component = component_arg \<rparr>
      in if \<not> bool_iterable tools_arg
         then self\<lparr> tools := add (\<lambda>t. t) ThisTool (tools self) \<rparr>
         else self)"

text \<open>
  \<open>Bom.__init__\<close>; \<open>fresh\<close> is the value \<open>uuid4()\<close> returns. The three collection
  arguments pass through \<open>or []\<close> only and are never tested again, so each is given by
  the items it yields, \<open>None\<close> standing for no argument.
\<close>

definition or_empty :: "'a list option \<Rightarrow> 'a list" where
  "or_empty xs = (case xs of None \<Rightarrow> [] | Some ys \<Rightarrow> ys)"

definition Bom_init ::
  "uuid \<Rightarrow> datetime \<Rightarrow> 't \<Rightarrow> component list option \<Rightarrow> service list option \<Rightarrow>
   ('e::linorder) list option \<Rightarrow> ('t::linorder, 'e) Bom" where
  "Bom_init fresh now ThisTool components_arg services_arg external_references_arg =
     \<lparr> uuid = fresh,
       metadata = BomMetaData_init now ThisTool None None,
       components = SortedSet component_key (or_empty components_arg),
       services = SortedSet service_key (or_empty services_arg),
       external_references = SortedSet (\<lambda>e. e) (or_empty external_references_arg) \<rparr>"

section \<open>\<open>Bom.validate\<close>\<close>

datatype error =
  UnknownComponentDependencyException "bom_ref set"
  | TypeError string

datatype warning = UserWarning string

text \<open>
  The exception's message ends with the text of \<open>dependency_diff\<close>; the model keeps the
  set itself. A warning goes to the stream of \<open>warnings.warn\<close>, the first component of
  the result.
\<close>

definition all_bom_refs :: "('t, 'e) Bom \<Rightarrow> bom_ref set" where
  "all_bom_refs self =
     set (case component (metadata self) of Some c \<Rightarrow> [bom_ref c] | None \<Rightarrow> [])
     \<union> set (map bom_ref (components self))
     \<union> set (map service_bom_ref (services self))"

definition all_dependency_bom_refs :: "('t, 'e) Bom \<Rightarrow> bom_ref set" where
  "all_dependency_bom_refs self = \<Union> (set (map (\<lambda>c. set (dependencies c)) (components self)))"

definition str_optional :: "string option \<Rightarrow> string" where
  "str_optional p = (case p of None \<Rightarrow> ''None'' | Some s \<Rightarrow> s)"

definition incomplete_graph_warning :: "component \<Rightarrow> warning" where
  "incomplete_graph_warning c = UserWarning
     (''The Component this BOM is describing '' @ str_optional (purl c)
      @ '' has no defined dependencies''
      @ ''which means the Dependency Graph is incomplete - you should add direct dependencies to this Component''
      @ ''to complete the Dependency Graph data.'')"

definition validate :: "('t, 'e) Bom \<Rightarrow> warning list \<times> (error + bool)" where
  "validate self =
     (let dependency_diff = all_dependency_bom_refs self - all_bom_refs self
      in if dependency_diff \<noteq> {}
         then ([], Inl (UnknownComponentDependencyException dependency_diff))
         else (case component (metadata self) of
                 Some c \<Rightarrow>
                   (if dependencies c = [] then ([incomplete_graph_warning c], Inr True)
                    else ([], Inr True))
               | None \<Rightarrow> ([], Inr True)))"

section \<open>Lookups of \<open>Bom\<close>\<close>

definition truthy :: "string option \<Rightarrow> bool" where
  "truthy p = (case p of None \<Rightarrow> False | Some s \<Rightarrow> s \<noteq> [])"

definition get_component_by_purl :: "('t, 'e) Bom \<Rightarrow> string option \<Rightarrow> component option" where
  "get_component_by_purl self p =
     (if truthy p
      then (case filter (\<lambda>x. purl x = p) (components self) of
              [x] \<Rightarrow> Some x
            | _ \<Rightarrow> None)
      else None)"

definition get_urn_uuid :: "('t, 'e) Bom \<Rightarrow> string" where
  "get_urn_uuid self = ''urn:uuid:'' @ uuid self"

definition has_component :: "('t, 'e) Bom \<Rightarrow> component \<Rightarrow> bool" where
  "has_component self c = contains component_key (components self) c"

definition has_vulnerabilities :: "('t, 'e) Bom \<Rightarrow> bool" where
  "has_vulnerabilities self = list_ex component_has_vulnerabilities (components self)"

section \<open>\<open>__hash__\<close> and \<open>__eq__\<close>\<close>

text \<open>
  The hash functions of the Python runtime and of the missing classes are parameters.
  \<open>hash\<close> of a tuple hashes the items in order and raises what the first failing item
  raises. \<open>SortedSet\<close> defines \<open>__eq__\<close> and no \<open>__hash__\<close>, so Python leaves it
  unhashable: \<open>hash\<close> of one raises \<open>TypeError\<close>.
\<close>

record 'e hashing =
  hash_datetime :: "datetime \<Rightarrow> int"
  hash_uuid :: "uuid \<Rightarrow> int"
  hash_None :: int
  hash_component :: "component \<Rightarrow> int"
  hash_service :: "service \<Rightarrow> int"
  hash_external_reference :: "'e \<Rightarrow> int"
  hash_ints :: "int list \<Rightarrow> int"

fun hash_items :: "(error + int) list \<Rightarrow> error + int list" where
  "hash_items [] = Inr []"
| "hash_items (h # hs) =
     (case h of
        Inl e \<Rightarrow> Inl e
      | Inr v \<Rightarrow> (case hash_items hs of Inl e \<Rightarrow> Inl e | Inr vs \<Rightarrow> Inr (v # vs)))"

definition hash_tuple :: "'e hashing \<Rightarrow> (error + int) list \<Rightarrow> error + int" where
  "hash_tuple H items = (case hash_items items of Inl e \<Rightarrow> Inl e | Inr vs \<Rightarrow> Inr (hash_ints H vs))"

definition hash_SortedSet :: "'a list \<Rightarrow> error + int" where
  "hash_SortedSet s = Inl (TypeError ''unhashable type: SortedSet'')"

definition hash_optional_component :: "'e hashing \<Rightarrow> component option \<Rightarrow> error + int" where
  "hash_optional_component H c =
     (case c of None \<Rightarrow> Inr (hash_None H) | Some x \<Rightarrow> Inr (hash_component H x))"

definition BomMetaData_hash :: "'e hashing \<Rightarrow> 't BomMetaData \<Rightarrow> error + int" where
  "BomMetaData_hash H self =
     hash_tuple H
       [Inr (hash_datetime H (timestamp self)),
        hash_SortedSet (tools self),
        hash_optional_component H (component self)]"

text \<open>The argument of \<open>__eq__\<close> is any object: an instance of the class, or not.\<close>

datatype 'a object = Instance 'a | Other

definition hash_eq :: "error + int \<Rightarrow> error + int \<Rightarrow> error + bool" where
  "hash_eq hash_other hash_self =
     (case hash_other of
        Inl e \<Rightarrow> Inl e
      | Inr ho \<Rightarrow> (case hash_self of Inl e \<Rightarrow> Inl e | Inr hs \<Rightarrow> Inr (ho = hs)))"

definition BomMetaData_eq :: "'e hashing \<Rightarrow> 't BomMetaData \<Rightarrow> 't BomMetaData object \<Rightarrow> error + bool" where
  "BomMetaData_eq H self other =
     (case other of
        Instance other' \<Rightarrow> hash_eq (BomMetaData_hash H other') (BomMetaData_hash H self)
      | Other \<Rightarrow> Inr False)"

definition Bom_hash :: "'e hashing \<Rightarrow> ('t, 'e) Bom \<Rightarrow> error + int" where
  "Bom_hash H self =
     hash_tuple H
       [Inr (hash_uuid H (uuid self)),
        BomMetaData_hash H (metadata self),
        hash_tuple H (map (\<lambda>c. Inr (hash_component H c)) (components self)),
        hash_tuple H (map (\<lambda>s. Inr (hash_service H s)) (services self)),
        hash_tuple H (map (\<lambda>e. Inr (hash_external_reference H e)) (external_references self))]"

definition Bom_eq :: "'e hashing \<Rightarrow> ('t, 'e) Bom \<Rightarrow> ('t, 'e) Bom object \<Rightarrow> error + bool" where
  "Bom_eq H self other =
     (case other of
        Instance other' \<Rightarrow> hash_eq (Bom_hash H other') (Bom_hash H self)
      | Other \<Rightarrow> Inr False)"

section \<open>The operations of a \<open>Bom\<close> as steps on its state\<close>

text \<open>
  A call or an assignment on a \<open>Bom\<close> object gives an outcome (the value returned or
  the exception raised), the warnings it emitted and the object's state after it.
\<close>

datatype retval = RNone | RBool bool | RStr string | RComponent "component option"

datatype ('t, 'e) bom_op =
  Validate
  | Has_component component
  | Has_vulnerabilities
  | Get_component_by_purl "string option"
  | Get_urn_uuid
  | Components_add component
  | Services_add service
  | External_references_add 'e
  | Set_uuid uuid
  | Set_metadata "'t BomMetaData"
  | Set_components "component list"
  | Set_services "service list"
  | Set_external_references "'e list"

record ('t, 'e) step =
  outcome :: "error + retval"
  warned :: "warning list"
  after :: "('t, 'e) Bom"

text \<open>
  \<open>validate\<close> as a call in the running program: the state is the object \<open>self\<close> and the
  stream of warnings issued so far. The method reads the attributes of \<open>self\<close>, builds
  new sets from them and assigns nothing; \<open>warnings.warn\<close> extends the stream.
\<close>

record ('t, 'e) interpreter =
  self_bom :: "('t, 'e) Bom"
  warnings_stream :: "warning list"

definition warnings_warn :: "warning \<Rightarrow> ('t, 'e) interpreter \<Rightarrow> ('t, 'e) interpreter" where
  "warnings_warn w st = st\<lparr> warnings_stream := warnings_stream st @ [w] \<rparr>"

definition validate_call :: "('t, 'e) interpreter \<Rightarrow> (error + bool) \<times> ('t, 'e) interpreter" where
  "validate_call st =
     (let dependency_diff = all_dependency_bom_refs (self_bom st) - all_bom_refs (self_bom st)
      in if dependency_diff \<noteq> {}
         then (Inl (UnknownComponentDependencyException dependency_diff), st)
         else (case component (metadata (self_bom st)) of
                 Some c \<Rightarrow>
                   (if dependencies c = []
                    then (Inr True, warnings_warn (incomplete_graph_warning c) st)
                    else (Inr True, st))
               | None \<Rightarrow> (Inr True, st)))"

definition returns :: "retval \<Rightarrow> ('t, 'e) Bom \<Rightarrow> ('t, 'e) step" where
  "returns v b = \<lparr> outcome = Inr v, warned = [], after = b \<rparr>"

definition run :: "('t, 'e::linorder) bom_op \<Rightarrow> ('t, 'e) Bom \<Rightarrow> ('t, 'e) step" where
  "run op self =
     (case op of
        Validate \<Rightarrow>
          (case validate_call \<lparr> self_bom = self, warnings_stream = [] \<rparr> of
             (r, st) \<Rightarrow>
               \<lparr> outcome = (case r of Inl e \<Rightarrow> Inl e | Inr v \<Rightarrow> Inr (RBool v)),
                 warned = warnings_stream st,
                 after = self_bom st \<rparr>)
      | Has_component c \<Rightarrow> returns (RBool (has_component self c)) self
      | Has_vulnerabilities \<Rightarrow> returns (RBool (has_vulnerabilities self)) self
      | Get_component_by_purl p \<Rightarrow> returns (RComponent (get_component_by_purl self p)) self
      | Get_urn_uuid \<Rightarrow> returns (RStr (get_urn_uuid self)) self
      | Components_add c \<Rightarrow>
          returns RNone (self\<lparr> components := add component_key c (components self) \<rparr>)
      | Services_add s \<Rightarrow>
          returns RNone (self\<lparr> services := add service_key s (services self) \<rparr>)
      | External_references_add e \<Rightarrow>
          returns RNone (self\<lparr> external_references := add (\<lambda>e. e) e (external_references self) \<rparr>)
      | Set_uuid u \<Rightarrow> returns RNone (self\<lparr> uuid := u \<rparr>)
      | Set_metadata m \<Rightarrow> returns RNone (self\<lparr> metadata := m \<rparr>)
      | Set_components cs \<Rightarrow> returns RNone (self\<lparr> components := SortedSet component_key cs \<rparr>)
      | Set_services ss \<Rightarrow> returns RNone (self\<lparr> services := SortedSet service_key ss \<rparr>)
      | Set_external_references es \<Rightarrow>
          returns RNone (self\<lparr> external_references := SortedSet (\<lambda>e. e) es \<rparr>))"

definition run_all :: "('t, 'e::linorder) bom_op list \<Rightarrow> ('t, 'e) Bom \<Rightarrow> ('t, 'e) Bom" where
  "run_all ops b = foldl (\<lambda>s op. after (run op s)) b ops"

definition assigns_uuid :: "('t, 'e) bom_op \<Rightarrow> bool" where
  "assigns_uuid op = (case op of Set_uuid u \<Rightarrow> True | _ \<Rightarrow> False)"

section \<open>Example documents\<close>

text \<open>
  The documents of the specification's scenarios: a described component \<open>product\<close> with the
  identifier \<open>root\<close> and two libraries, each built with the dependencies it declares, put
  together as \<open>tests/data.py\<close> does (construct the \<open>Bom\<close>, then assign
  \<open>bom.metadata.component\<close>).
\<close>

definition product :: "bom_ref list \<Rightarrow> component" where
  "product deps = \<lparr> name = ''product'', version = Some ''1.0.0'', bom_ref = ''root'',
      purl = None, dependencies = deps, vulnerabilities = [] \<rparr>"

definition lib_a :: "bom_ref list \<Rightarrow> component" where
  "lib_a deps = \<lparr> name = ''lib-a'', version = Some ''0.10.2'', bom_ref = ''lib-a'',
      purl = Some ''pkg:pypi/lib-a@0.10.2'', dependencies = deps, vulnerabilities = [] \<rparr>"

definition lib_b :: "bom_ref list \<Rightarrow> component" where
  "lib_b deps = \<lparr> name = ''lib-b'', version = None, bom_ref = ''lib-b'',
      purl = Some ''pkg:pypi/lib-b'', dependencies = deps, vulnerabilities = [''CVE-2018-7489''] \<rparr>"

definition document :: "component option \<Rightarrow> component list \<Rightarrow> (string, string) Bom" where
  "document described cs =
     (let bom = Bom_init ''be2c6502-7e9a-47db-9a66-e34f729810a3'' 1640944800000000 ''ThisTool''
                  (Some cs) None None
      in bom\<lparr> metadata := (metadata bom)\<lparr> component := described \<rparr> \<rparr>)"

definition first_service :: service where
  "first_service = \<lparr> service_name = ''my-first-service'', service_version = None,
     service_bom_ref = ''my-first-service'' \<rparr>"

definition second_service :: service where
  "second_service = \<lparr> service_name = ''my-second-service'', service_version = None,
     service_bom_ref = ''my-second-service'' \<rparr>"

section \<open>The specification's notions\<close>

text \<open>
  The notions of the specification, in its words: the declared identifiers are those some
  component of the document lists as a dependency; the identifier universe holds the
  described component's identifier if one is set, every component's and every service's.
\<close>

definition spec_declared :: "('t, 'e) Bom \<Rightarrow> bom_ref set" where
  "spec_declared b = {d. \<exists>c. c \<in> set (components b) \<and> d \<in> set (dependencies c)}"

definition spec_universe :: "('t, 'e) Bom \<Rightarrow> bom_ref set" where
  "spec_universe b =
     {r. (\<exists>c. component (metadata b) = Some c \<and> r = bom_ref c)
         \<or> (\<exists>c. c \<in> set (components b) \<and> r = bom_ref c)
         \<or> (\<exists>s. s \<in> set (services b) \<and> r = service_bom_ref s)}"

text \<open>
  A sorted set in the specification's sense: iterated in the order of the values, with no
  two value-equal entries.
\<close>

definition sorted_unique :: "('a \<Rightarrow> 'k::linorder) \<Rightarrow> 'a list \<Rightarrow> bool" where
  "sorted_unique k s = (sorted (map k s) \<and> distinct (map k s))"

lemma all_dependency_bom_refs_spec: "all_dependency_bom_refs b = spec_declared b"
  by (auto simp: all_dependency_bom_refs_def spec_declared_def)

lemma all_bom_refs_spec: "all_bom_refs b = spec_universe b"
proof (cases "component (metadata b)")
  case None
  then show ?thesis
    by (auto simp: all_bom_refs_def spec_universe_def)
next
  case (Some c)
  then show ?thesis
    by (auto simp: all_bom_refs_def spec_universe_def)
qed

section \<open>Facts about the sorted set\<close>

lemma set_sortedlist_add: "set (sortedlist_add k x s) = insert x (set s)"
  by (induction s) auto

lemma sorted_sortedlist_add:
  "sorted (map k s) \<Longrightarrow> sorted (map k (sortedlist_add k x s))"
  by (induction s) (auto simp: set_sortedlist_add)

lemma length_sortedlist_add: "length (sortedlist_add k x s) = Suc (length s)"
  by (induction s) auto

lemma add_member: "contains k (add k x s) x"
  by (simp add: add_def contains_def set_sortedlist_add)

lemma keys_add: "k ` set (add k x s) = insert (k x) (k ` set s)"
  by (auto simp: add_def contains_def set_sortedlist_add)

lemma set_add_subset: "set (add k x s) \<subseteq> insert x (set s)"
  by (auto simp: add_def set_sortedlist_add)

lemma sorted_add: "sorted (map k s) \<Longrightarrow> sorted (map k (add k x s))"
  by (simp add: add_def sorted_sortedlist_add)

lemma distinct_sortedlist_add:
  "distinct (map k s) \<Longrightarrow> k x \<notin> set (map k s) \<Longrightarrow> distinct (map k (sortedlist_add k x s))"
  by (induction s) (auto simp: set_sortedlist_add)

lemma distinct_add: "distinct (map k s) \<Longrightarrow> distinct (map k (add k x s))"
  by (simp add: add_def contains_def distinct_sortedlist_add)

lemma add_twice: "k x' = k x \<Longrightarrow> add k x' (add k x s) = add k x s"
  using add_member [of k x s] by (simp add: add_def contains_def)

lemma SortedSet_snoc: "SortedSet k (xs @ [x]) = add k x (SortedSet k xs)"
  by (simp add: SortedSet_def)

lemma SortedSet_Nil: "SortedSet k [] = []"
  by (simp add: SortedSet_def)

lemma sorted_SortedSet: "sorted (map k (SortedSet k xs))"
  by (induction xs rule: rev_induct) (simp_all add: SortedSet_Nil SortedSet_snoc sorted_add)

lemma distinct_SortedSet: "distinct (map k (SortedSet k xs))"
  by (induction xs rule: rev_induct) (simp_all add: SortedSet_Nil SortedSet_snoc distinct_add)

lemma keys_SortedSet: "k ` set (SortedSet k xs) = k ` set xs"
  by (induction xs rule: rev_induct) (simp_all add: SortedSet_Nil SortedSet_snoc keys_add)

lemma set_SortedSet_subset: "set (SortedSet k xs) \<subseteq> set xs"
proof (induction xs rule: rev_induct)
  case Nil
  then show ?case by (simp add: SortedSet_Nil)
next
  case (snoc x xs)
  then show ?case using set_add_subset [of k x "SortedSet k xs"]
    by (auto simp: SortedSet_snoc)
qed

lemma keys_order_unique:
  "set (map k xs) = set (map k ys) \<Longrightarrow> map k (SortedSet k xs) = map k (SortedSet k ys)"
  using sorted_distinct_set_unique [of "map k (SortedSet k xs)" "map k (SortedSet k ys)"]
  by (simp add: sorted_SortedSet distinct_SortedSet keys_SortedSet)

section \<open>\<open>validate\<close>: the hard check and the advisory check\<close>

lemmas ev = document_def Bom_init_def BomMetaData_init_def SortedSet_def add_def contains_def
  or_empty_def or_empty_list_def component_key_def service_key_def product_def lib_a_def lib_b_def
  all_bom_refs_def all_dependency_bom_refs_def validate_def Let_def


text \<open>
  Claim C1. Whenever some declared dependency identifier of a document is outside its
  identifier universe, \<open>validate\<close> raises \<open>UnknownComponentDependencyException\<close> before
  any warning, and the set it reports is the whole difference of the declared identifiers
  and the universe, every unresolved reference and not only the first.
\<close>

theorem validate_raises_unresolved:
  assumes "\<not> spec_declared b \<subseteq> spec_universe b"
  shows "validate b = ([], Inl (UnknownComponentDependencyException (spec_declared b - spec_universe b)))"
  using assms
  by (simp add: validate_def Let_def all_dependency_bom_refs_spec all_bom_refs_spec)

lemma scenario_B_sets:
  "all_dependency_bom_refs (document (Some (product [])) [lib_a [''lib-missing'']]) = {''lib-missing''}"
  "all_bom_refs (document (Some (product [])) [lib_a [''lib-missing'']]) = {''root'', ''lib-a''}"
  by (auto simp: ev)

text \<open>
  Scenario B: \<open>lib-a\<close> declares the dependency \<open>lib-missing\<close>, which no entity of the
  document carries.
\<close>

theorem validate_raises_unresolved_witness:
  "\<not> spec_declared (document (Some (product [])) [lib_a [''lib-missing'']])
       \<subseteq> spec_universe (document (Some (product [])) [lib_a [''lib-missing'']])
   \<and> validate (document (Some (product [])) [lib_a [''lib-missing'']])
       = ([], Inl (UnknownComponentDependencyException {''lib-missing''}))"
proof -
  let ?b = "document (Some (product [])) [lib_a [''lib-missing'']]"
  have d: "spec_declared ?b = {''lib-missing''}"
    using scenario_B_sets(1) by (simp only: all_dependency_bom_refs_spec)
  have u: "spec_universe ?b = {''root'', ''lib-a''}"
    using scenario_B_sets(2) by (simp only: all_bom_refs_spec)
  have h: "\<not> spec_declared ?b \<subseteq> spec_universe ?b"
    by (simp add: d u)
  have diff: "spec_declared ?b - spec_universe ?b = {''lib-missing''}"
    by (simp add: d u)
  show ?thesis
    using h validate_raises_unresolved [OF h] by (simp only: diff simp_thms)
qed

lemma validate_resolved:
  assumes "spec_declared b \<subseteq> spec_universe b"
  shows "validate b =
    ((case component (metadata b) of
        Some c \<Rightarrow> if dependencies c = [] then [incomplete_graph_warning c] else []
      | None \<Rightarrow> []), Inr True)"
proof -
  have "all_dependency_bom_refs b - all_bom_refs b = {}"
    using assms by (simp add: all_dependency_bom_refs_spec all_bom_refs_spec)
  then show ?thesis
    by (simp add: validate_def split: option.splits)
qed

lemma empty_Bom_resolved:
  "spec_declared (Bom_init fresh now ThisTool None None None) = {}"
  by (simp add: spec_declared_def Bom_init_def or_empty_def SortedSet_Nil)

lemma empty_Bom_described:
  "component (metadata (Bom_init fresh now ThisTool cs ss es)) = None"
  by (simp add: Bom_init_def BomMetaData_init_def Let_def)

lemma cycle_resolved:
  assumes "dependencies c1 = [bom_ref c2]" and "dependencies c2 = [bom_ref c1]"
  shows "spec_declared (Bom_init fresh now ThisTool (Some [c1, c2]) None None)
         \<subseteq> spec_universe (Bom_init fresh now ThisTool (Some [c1, c2]) None None)"
proof -
  let ?cs = "SortedSet component_key [c1, c2]"
  have keys: "component_key ` set ?cs = {component_key c1, component_key c2}"
    by (simp add: keys_SortedSet)
  have refs: "bom_ref ` set ?cs = {bom_ref c1, bom_ref c2}"
  proof -
    have "bom_ref ` set ?cs = (\<lambda>k. snd (snd k)) ` (component_key ` set ?cs)"
      by (simp add: image_image component_key_def)
    also have "\<dots> = (\<lambda>k. snd (snd k)) ` {component_key c1, component_key c2}"
      by (simp only: keys)
    finally show ?thesis
      by (simp add: component_key_def)
  qed
  have sub: "set ?cs \<subseteq> {c1, c2}"
    using set_SortedSet_subset [of component_key "[c1, c2]"] by simp
  have "\<And>c d. c \<in> set ?cs \<Longrightarrow> d \<in> set (dependencies c) \<Longrightarrow> d \<in> bom_ref ` set ?cs"
    using sub assms by (auto simp: refs)
  then have "\<And>c d. c \<in> set ?cs \<Longrightarrow> d \<in> set (dependencies c) \<Longrightarrow>
      \<exists>c'. c' \<in> set ?cs \<and> d = bom_ref c'"
    by blast
  then show ?thesis
    unfolding spec_declared_def spec_universe_def Bom_init_def or_empty_def
    by (simp add: subset_iff) blast
qed

text \<open>
  Claim C2. When every declared dependency identifier of a document is in its identifier
  universe, \<open>validate\<close> returns \<open>True\<close> and raises nothing. The empty document validates,
  with no warning, and so does every document of two components that depend on each
  other's identifier: only the existence of the identifiers is checked.
\<close>

theorem validate_succeeds:
  "(spec_declared b \<subseteq> spec_universe b \<longrightarrow> snd (validate b) = Inr True)
   \<and> validate (Bom_init fresh now ThisTool None None None) = ([], Inr True)
   \<and> (dependencies c1 = [bom_ref c2] \<and> dependencies c2 = [bom_ref c1] \<longrightarrow>
        validate (Bom_init fresh' now' ThisTool' (Some [c1, c2]) None None) = ([], Inr True))"
proof (intro conjI impI)
  assume "spec_declared b \<subseteq> spec_universe b"
  then show "snd (validate b) = Inr True"
    by (simp add: validate_resolved)
next
  show "validate (Bom_init fresh now ThisTool None None None) = ([], Inr True)"
    by (simp add: validate_resolved empty_Bom_resolved empty_Bom_described)
next
  assume "dependencies c1 = [bom_ref c2] \<and> dependencies c2 = [bom_ref c1]"
  then show "validate (Bom_init fresh' now' ThisTool' (Some [c1, c2]) None None) = ([], Inr True)"
    by (simp add: validate_resolved cycle_resolved empty_Bom_described)
qed

lemma scenario_C_sets:
  "all_dependency_bom_refs (document None [lib_a [''lib-b''], lib_b [''lib-a'']]) = {''lib-a'', ''lib-b''}"
  "all_bom_refs (document None [lib_a [''lib-b''], lib_b [''lib-a'']]) = {''lib-a'', ''lib-b''}"
  by (auto simp: ev)

text \<open>
  Scenario C: \<open>lib-a\<close> and \<open>lib-b\<close> depend on each other and nothing is described.
\<close>

theorem validate_succeeds_witness:
  "spec_declared (document None [lib_a [''lib-b''], lib_b [''lib-a'']])
     \<subseteq> spec_universe (document None [lib_a [''lib-b''], lib_b [''lib-a'']])
   \<and> snd (validate (document None [lib_a [''lib-b''], lib_b [''lib-a'']])) = Inr True
   \<and> dependencies (lib_a [''lib-b'']) = [bom_ref (lib_b [''lib-a''])]
   \<and> dependencies (lib_b [''lib-a'']) = [bom_ref (lib_a [''lib-b''])]
   \<and> validate (Bom_init ''17e3b199-dc0b-42ef-bfdd-1fa81a1e3eda'' 0 ''ThisTool''
        (Some [lib_a [''lib-b''], lib_b [''lib-a'']]) None None :: (string, string) Bom) = ([], Inr True)"
proof -
  let ?b = "document None [lib_a [''lib-b''], lib_b [''lib-a'']]"
  have h: "spec_declared ?b \<subseteq> spec_universe ?b"
    using scenario_C_sets by (simp only: all_dependency_bom_refs_spec all_bom_refs_spec)
  have c: "dependencies (lib_a [''lib-b'']) = [bom_ref (lib_b [''lib-a''])]
      \<and> dependencies (lib_b [''lib-a'']) = [bom_ref (lib_a [''lib-b''])]"
    by (simp add: lib_a_def lib_b_def)
  show ?thesis
    using h c
      validate_succeeds [of ?b _ _ _ "lib_a [''lib-b'']" "lib_b [''lib-a'']"
        "''17e3b199-dc0b-42ef-bfdd-1fa81a1e3eda''" 0 "''ThisTool''"]
    by blast
qed

text \<open>
  Claim C3. For a document that passes the hard check, \<open>validate\<close> returns \<open>True\<close>
  whatever the advisory check finds. When a described component is set and declares no
  dependency, exactly the warning about that component is emitted; when no component is
  described, or the described one declares a dependency, no warning is emitted.
\<close>

theorem advisory_warning:
  assumes "spec_declared b \<subseteq> spec_universe b"
  shows "snd (validate b) = Inr True
    \<and> ((\<exists>c. component (metadata b) = Some c \<and> dependencies c = []) \<longrightarrow>
         (\<exists>c. component (metadata b) = Some c \<and> fst (validate b) = [incomplete_graph_warning c]))
    \<and> (\<not> (\<exists>c. component (metadata b) = Some c \<and> dependencies c = []) \<longrightarrow>
         fst (validate b) = [])"
  using validate_resolved [OF assms] by (auto split: option.splits)

lemma scenario_A_sets:
  "all_dependency_bom_refs (document (Some (product [])) [lib_a [''root'']]) = {''root''}"
  "all_bom_refs (document (Some (product [])) [lib_a [''root'']]) = {''root'', ''lib-a''}"
  by (auto simp: ev)

text \<open>
  Scenario A: the described \<open>product\<close> declares nothing and \<open>lib-a\<close> depends on it; the
  warning fires and the result is \<open>True\<close>.
\<close>

theorem advisory_warning_witness:
  "spec_declared (document (Some (product [])) [lib_a [''root'']])
     \<subseteq> spec_universe (document (Some (product [])) [lib_a [''root'']])
   \<and> component (metadata (document (Some (product [])) [lib_a [''root'']])) = Some (product [])
   \<and> dependencies (product []) = []
   \<and> validate (document (Some (product [])) [lib_a [''root'']])
       = ([incomplete_graph_warning (product [])], Inr True)"
proof -
  let ?b = "document (Some (product [])) [lib_a [''root'']]"
  have h: "spec_declared ?b \<subseteq> spec_universe ?b"
    using scenario_A_sets by (simp only: all_dependency_bom_refs_spec all_bom_refs_spec) simp
  have m: "component (metadata ?b) = Some (product [])"
    by (simp add: document_def Let_def)
  have d: "dependencies (product []) = []"
    by (simp add: product_def)
  show ?thesis
    using h m d advisory_warning [OF h] by (cases "validate ?b") auto
qed

text \<open>
  Claim C9. The declared set is built from the components collection only. A described
  component that is not in the collection may declare identifiers outside the universe:
  when the components' own dependencies resolve, \<open>validate\<close> still returns \<open>True\<close>, and
  with no warning, as the described component does declare dependencies.
\<close>

theorem described_dependencies_unchecked:
  assumes "component (metadata b) = Some mc"
    and "\<not> set (dependencies mc) \<subseteq> spec_universe b"
    and "\<not> has_component b mc"
    and "spec_declared b \<subseteq> spec_universe b"
  shows "validate b = ([], Inr True)"
proof -
  have "dependencies mc \<noteq> []"
    using assms(2) by auto
  then show ?thesis
    using validate_resolved [OF assms(4)] assms(1) by simp
qed

lemma scenario_E_sets:
  "all_dependency_bom_refs (document (Some (product [''ghost''])) [lib_a [''root'']]) = {''root''}"
  "all_bom_refs (document (Some (product [''ghost''])) [lib_a [''root'']]) = {''root'', ''lib-a''}"
  by (auto simp: ev)

text \<open>
  The described \<open>product\<close> declares \<open>ghost\<close>, which nothing carries, and is not among the
  components.
\<close>

theorem described_dependencies_unchecked_witness:
  "component (metadata (document (Some (product [''ghost''])) [lib_a [''root'']])) = Some (product [''ghost''])
   \<and> \<not> set (dependencies (product [''ghost'']))
        \<subseteq> spec_universe (document (Some (product [''ghost''])) [lib_a [''root'']])
   \<and> \<not> has_component (document (Some (product [''ghost''])) [lib_a [''root'']]) (product [''ghost''])
   \<and> spec_declared (document (Some (product [''ghost''])) [lib_a [''root'']])
        \<subseteq> spec_universe (document (Some (product [''ghost''])) [lib_a [''root'']])
   \<and> validate (document (Some (product [''ghost''])) [lib_a [''root'']]) = ([], Inr True)"
proof -
  let ?b = "document (Some (product [''ghost''])) [lib_a [''root'']]"
  have u: "spec_universe ?b = {''root'', ''lib-a''}"
    using scenario_E_sets(2) by (simp only: all_bom_refs_spec)
  have m: "component (metadata ?b) = Some (product [''ghost''])"
    by (simp add: document_def Let_def)
  have g: "\<not> set (dependencies (product [''ghost''])) \<subseteq> spec_universe ?b"
    unfolding u by (simp add: product_def)
  have n: "\<not> has_component ?b (product [''ghost''])"
    by (simp add: has_component_def ev)
  have h: "spec_declared ?b \<subseteq> spec_universe ?b"
    using scenario_E_sets by (simp only: all_dependency_bom_refs_spec all_bom_refs_spec) simp
  show ?thesis
    using m g n h described_dependencies_unchecked [OF m g n h] by simp
qed

section \<open>\<open>get_component_by_purl\<close>\<close>

lemma filter_singleton_unique:
  assumes "distinct xs"
  shows "(case filter P xs of [x] \<Rightarrow> Some x | _ \<Rightarrow> None) =
         (if \<exists>!x. x \<in> set xs \<and> P x then Some (THE x. x \<in> set xs \<and> P x) else None)"
proof (cases "filter P xs")
  case Nil
  then have "\<not> (\<exists>x. x \<in> set xs \<and> P x)"
    by (auto simp: filter_empty_conv)
  with Nil show ?thesis by auto
next
  case (Cons y ys)
  note outer = Cons
  have sat: "set (filter P xs) = {x. x \<in> set xs \<and> P x}"
    by auto
  show ?thesis
  proof (cases ys)
    case Nil
    with outer sat have "{x. x \<in> set xs \<and> P x} = {y}"
      by simp
    then have one: "\<And>x. (x \<in> set xs \<and> P x) = (x = y)"
      by auto
    then have "(THE x. x \<in> set xs \<and> P x) = y"
      by simp
    moreover have "\<exists>!x. x \<in> set xs \<and> P x"
      using one by simp
    ultimately show ?thesis
      using outer Nil by simp
  next
    case (Cons z zs)
    have "distinct (filter P xs)"
      using assms by simp
    with outer Cons have "y \<noteq> z"
      by simp
    moreover have "y \<in> set (filter P xs)" and "z \<in> set (filter P xs)"
      using outer Cons by simp_all
    then have "y \<in> set xs \<and> P y" and "z \<in> set xs \<and> P z"
      by simp_all
    ultimately have "\<not> (\<exists>!x. x \<in> set xs \<and> P x)"
      by blast
    then show ?thesis
      using outer Cons by simp
  qed
qed

text \<open>
  Claim C10. The components of a \<open>Bom\<close> are a set, so no entry occurs twice. Then
  \<open>get_component_by_purl\<close> returns a component exactly when the purl is neither \<open>None\<close>
  nor empty and exactly one component of the collection has that purl, and it returns that
  one; when the purl is \<open>None\<close> or empty, when no component matches and when two or more
  match, it returns \<open>None\<close>.
\<close>

theorem get_component_by_purl_exactly_one:
  assumes "distinct (components b)"
  shows "get_component_by_purl b p =
    (if p \<noteq> None \<and> p \<noteq> Some [] \<and> (\<exists>!c. c \<in> set (components b) \<and> purl c = p)
     then Some (THE c. c \<in> set (components b) \<and> purl c = p)
     else None)"
proof -
  have "truthy p = (p \<noteq> None \<and> p \<noteq> Some [])"
    by (simp add: truthy_def split: option.splits)
  then show ?thesis
    using filter_singleton_unique [OF assms, of "\<lambda>x. purl x = p"]
    by (simp add: get_component_by_purl_def)
qed


lemma two_libraries:
  "components (document None [lib_b [], lib_a []]) = [lib_a [], lib_b []]"
  by (simp add: ev)

text \<open>
  Two libraries with different purls: the lookup of the second one's purl finds it.
\<close>

theorem get_component_by_purl_exactly_one_witness:
  "distinct (components (document None [lib_b [], lib_a []]))
   \<and> get_component_by_purl (document None [lib_b [], lib_a []]) (Some ''pkg:pypi/lib-b'') = Some (lib_b [])
   \<and> (THE c. c \<in> set (components (document None [lib_b [], lib_a []])) \<and> purl c = Some ''pkg:pypi/lib-b'')
       = lib_b []"
proof -
  let ?b = "document None [lib_b [], lib_a []]"
  have d: "distinct (components ?b)"
    by (simp add: two_libraries) (simp add: lib_a_def lib_b_def)
  have g: "get_component_by_purl ?b (Some ''pkg:pypi/lib-b'') = Some (lib_b [])"
    by (simp add: get_component_by_purl_def truthy_def two_libraries) (simp add: lib_a_def lib_b_def)
  show ?thesis
    using d g get_component_by_purl_exactly_one [OF d, of "Some ''pkg:pypi/lib-b''"]
    by (simp split: if_splits)
qed

section \<open>Construction defaults of \<open>BomMetaData\<close>\<close>








section \<open>The three collections\<close>

lemma sorted_unique_SortedSet: "sorted_unique k (SortedSet k xs)"
  by (simp add: sorted_unique_def sorted_SortedSet distinct_SortedSet)

lemma sorted_set_laws:
  "(sorted_unique k s \<longrightarrow> sorted_unique k (add k x s))
   \<and> k ` set (add k x s) = insert (k x) (k ` set s)
   \<and> (k x' = k x \<longrightarrow> add k x' (add k x s) = add k x s)
   \<and> sorted_unique k (SortedSet k xs)
   \<and> k ` set (SortedSet k xs) = k ` set xs
   \<and> (k ` set xs = k ` set ys \<longrightarrow> map k (SortedSet k xs) = map k (SortedSet k ys))"
proof (intro conjI impI)
  assume "sorted_unique k s"
  then show "sorted_unique k (add k x s)"
    by (simp add: sorted_unique_def sorted_add distinct_add)
next
  show "k ` set (add k x s) = insert (k x) (k ` set s)"
    by (rule keys_add)
next
  assume "k x' = k x"
  then show "add k x' (add k x s) = add k x s"
    by (rule add_twice)
next
  show "sorted_unique k (SortedSet k xs)"
    by (rule sorted_unique_SortedSet)
next
  show "k ` set (SortedSet k xs) = k ` set xs"
    by (rule keys_SortedSet)
next
  assume "k ` set xs = k ` set ys"
  then show "map k (SortedSet k xs) = map k (SortedSet k ys)"
    by (intro keys_order_unique) simp
qed

lemma sorted_set_laws_id:
  "(sorted_unique (\<lambda>e. e) (s :: 'a::linorder list) \<longrightarrow> sorted_unique (\<lambda>e. e) (add (\<lambda>e. e) x s))
   \<and> set (add (\<lambda>e. e) x s) = insert x (set s)
   \<and> add (\<lambda>e. e) x (add (\<lambda>e. e) x s) = add (\<lambda>e. e) x s
   \<and> sorted_unique (\<lambda>e. e) (SortedSet (\<lambda>e. e) (xs :: 'a list))
   \<and> set (SortedSet (\<lambda>e. e) xs) = set xs
   \<and> (set xs = set ys \<longrightarrow> SortedSet (\<lambda>e. e) xs = SortedSet (\<lambda>e. e) ys)"
  using sorted_set_laws [of "\<lambda>e. e" s x x xs ys] by simp

lemma components_after_add:
  "components (after (run (Components_add c) b)) = add component_key c (components b)"
  by (simp add: run_def returns_def)

lemma services_after_add:
  "services (after (run (Services_add s) b)) = add service_key s (services b)"
  by (simp add: run_def returns_def)

lemma external_references_after_add:
  "external_references (after (run (External_references_add e) b))
   = add (\<lambda>e. e) e (external_references b)"
  by (simp add: run_def returns_def)

lemma components_after_set:
  "components (after (run (Set_components cs) b)) = SortedSet component_key cs"
  by (simp add: run_def returns_def)

lemma services_after_set:
  "services (after (run (Set_services ss) b)) = SortedSet service_key ss"
  by (simp add: run_def returns_def)

lemma external_references_after_set:
  "external_references (after (run (Set_external_references es) b)) = SortedSet (\<lambda>e. e) es"
  by (simp add: run_def returns_def)

lemma collections_of_Bom_init:
  "components (Bom_init fresh now ThisTool ca sa ea) = SortedSet component_key (or_empty ca)"
  "services (Bom_init fresh now ThisTool ca sa ea) = SortedSet service_key (or_empty sa)"
  "external_references (Bom_init fresh now ThisTool ca sa ea) = SortedSet (\<lambda>e. e) (or_empty ea)"
  by (simp_all add: Bom_init_def)

text \<open>
  Claim C7. Each of the three collections of a \<open>Bom\<close> is a sorted set. An insertion puts
  the value in, keeps the collection sorted by value and free of value-equal entries, and
  a second insertion of a value-equal entity leaves the collection as it was, so its size
  does not change. A collection assigned from an iterable holds exactly the values of the
  iterable, sorted and without value-equal entries, and its order of iteration depends only
  on the set of values, not on the order they came in. The collections of a new \<open>Bom\<close>
  are sorted sets as well.
\<close>

theorem collections_are_sorted_sets:
  "((sorted_unique component_key (components b) \<longrightarrow>
       sorted_unique component_key (components (after (run (Components_add c) b))))
    \<and> component_key ` set (components (after (run (Components_add c) b)))
        = insert (component_key c) (component_key ` set (components b))
    \<and> (component_key c' = component_key c \<longrightarrow>
         components (after (run (Components_add c') (after (run (Components_add c) b))))
           = components (after (run (Components_add c) b))
         \<and> length (components (after (run (Components_add c') (after (run (Components_add c) b)))))
           = length (components (after (run (Components_add c) b))))
    \<and> sorted_unique component_key (components (after (run (Set_components cs) b)))
    \<and> component_key ` set (components (after (run (Set_components cs) b))) = component_key ` set cs
    \<and> (component_key ` set cs = component_key ` set cs' \<longrightarrow>
         map component_key (components (after (run (Set_components cs) b)))
           = map component_key (components (after (run (Set_components cs') b)))))
   \<and> ((sorted_unique service_key (services b) \<longrightarrow>
         sorted_unique service_key (services (after (run (Services_add s) b))))
      \<and> service_key ` set (services (after (run (Services_add s) b)))
          = insert (service_key s) (service_key ` set (services b))
      \<and> (service_key s' = service_key s \<longrightarrow>
           services (after (run (Services_add s') (after (run (Services_add s) b))))
             = services (after (run (Services_add s) b)))
      \<and> sorted_unique service_key (services (after (run (Set_services ss) b)))
      \<and> service_key ` set (services (after (run (Set_services ss) b))) = service_key ` set ss
      \<and> (service_key ` set ss = service_key ` set ss' \<longrightarrow>
           map service_key (services (after (run (Set_services ss) b)))
             = map service_key (services (after (run (Set_services ss') b)))))
   \<and> ((sorted_unique (\<lambda>e. e) (external_references b) \<longrightarrow>
         sorted_unique (\<lambda>e. e) (external_references (after (run (External_references_add e) b))))
      \<and> set (external_references (after (run (External_references_add e) b)))
          = insert e (set (external_references b))
      \<and> external_references (after (run (External_references_add e)
            (after (run (External_references_add e) b))))
          = external_references (after (run (External_references_add e) b))
      \<and> sorted_unique (\<lambda>e. e) (external_references (after (run (Set_external_references es) b)))
      \<and> set (external_references (after (run (Set_external_references es) b))) = set es
      \<and> (set es = set es' \<longrightarrow>
           external_references (after (run (Set_external_references es) b))
             = external_references (after (run (Set_external_references es') b))))
   \<and> sorted_unique component_key (components (Bom_init fresh now ThisTool ca sa ea))
   \<and> sorted_unique service_key (services (Bom_init fresh now ThisTool ca sa ea))
   \<and> sorted_unique (\<lambda>e. e) (external_references (Bom_init fresh now ThisTool ca sa ea))"
proof -
  have A: "(sorted_unique component_key (components b) \<longrightarrow>
       sorted_unique component_key (components (after (run (Components_add c) b))))
    \<and> component_key ` set (components (after (run (Components_add c) b)))
        = insert (component_key c) (component_key ` set (components b))
    \<and> (component_key c' = component_key c \<longrightarrow>
         components (after (run (Components_add c') (after (run (Components_add c) b))))
           = components (after (run (Components_add c) b))
         \<and> length (components (after (run (Components_add c') (after (run (Components_add c) b)))))
           = length (components (after (run (Components_add c) b))))
    \<and> sorted_unique component_key (components (after (run (Set_components cs) b)))
    \<and> component_key ` set (components (after (run (Set_components cs) b))) = component_key ` set cs
    \<and> (component_key ` set cs = component_key ` set cs' \<longrightarrow>
         map component_key (components (after (run (Set_components cs) b)))
           = map component_key (components (after (run (Set_components cs') b))))"
    unfolding components_after_add components_after_set
    using sorted_set_laws [of component_key "components b" c c' cs cs'] by simp
  have B: "(sorted_unique service_key (services b) \<longrightarrow>
         sorted_unique service_key (services (after (run (Services_add s) b))))
      \<and> service_key ` set (services (after (run (Services_add s) b)))
          = insert (service_key s) (service_key ` set (services b))
      \<and> (service_key s' = service_key s \<longrightarrow>
           services (after (run (Services_add s') (after (run (Services_add s) b))))
             = services (after (run (Services_add s) b)))
      \<and> sorted_unique service_key (services (after (run (Set_services ss) b)))
      \<and> service_key ` set (services (after (run (Set_services ss) b))) = service_key ` set ss
      \<and> (service_key ` set ss = service_key ` set ss' \<longrightarrow>
           map service_key (services (after (run (Set_services ss) b)))
             = map service_key (services (after (run (Set_services ss') b))))"
    unfolding services_after_add services_after_set
    using sorted_set_laws [of service_key "services b" s s' ss ss'] by simp
  have C: "(sorted_unique (\<lambda>e. e) (external_references b) \<longrightarrow>
         sorted_unique (\<lambda>e. e) (external_references (after (run (External_references_add e) b))))
      \<and> set (external_references (after (run (External_references_add e) b)))
          = insert e (set (external_references b))
      \<and> external_references (after (run (External_references_add e)
            (after (run (External_references_add e) b))))
          = external_references (after (run (External_references_add e) b))
      \<and> sorted_unique (\<lambda>e. e) (external_references (after (run (Set_external_references es) b)))
      \<and> set (external_references (after (run (Set_external_references es) b))) = set es
      \<and> (set es = set es' \<longrightarrow>
           external_references (after (run (Set_external_references es) b))
             = external_references (after (run (Set_external_references es') b)))"
    unfolding external_references_after_add external_references_after_set
    using sorted_set_laws_id [of "external_references b" e es es'] by blast
  have D: "sorted_unique component_key (components (Bom_init fresh now ThisTool ca sa ea))"
    by (simp only: collections_of_Bom_init sorted_unique_SortedSet)
  have E: "sorted_unique service_key (services (Bom_init fresh now ThisTool ca sa ea))"
    by (simp only: collections_of_Bom_init sorted_unique_SortedSet)
  have F: "sorted_unique (\<lambda>e. e) (external_references (Bom_init fresh now ThisTool ca sa ea))"
    by (simp only: collections_of_Bom_init sorted_unique_SortedSet)
  show ?thesis
    by (rule conjI [OF A conjI [OF B conjI [OF C conjI [OF D conjI [OF E F]]]]])
qed


lemma one_library:
  "components (document None [lib_b []]) = [lib_b []]"
  "services (document None [lib_b []]) = []"
  "external_references (document None [lib_b []]) = []"
  by (simp_all add: ev)

text \<open>
  A Bom holding \<open>lib-b\<close> receives \<open>lib-a\<close> twice, the second time as a value-equal
  component with other dependencies: two components, \<open>lib-a\<close> first. Two services and
  two external references inserted in descending order are iterated in ascending order.
\<close>

theorem collections_are_sorted_sets_witness:
  "sorted_unique component_key (components (document None [lib_b []]))
   \<and> component_key (lib_a [''lib-b'']) = component_key (lib_a [])
   \<and> components (after (run (Components_add (lib_a [])) (document None [lib_b []])))
      = [lib_a [], lib_b []]
   \<and> components (after (run (Components_add (lib_a [''lib-b'']))
        (after (run (Components_add (lib_a [])) (document None [lib_b []])))))
      = [lib_a [], lib_b []]
   \<and> sorted_unique component_key
        (components (after (run (Components_add (lib_a [])) (document None [lib_b []]))))
   \<and> sorted_unique service_key
        (services (after (run (Services_add second_service) (document None [lib_b []]))))
   \<and> services (after (run (Services_add first_service)
        (after (run (Services_add second_service) (document None [lib_b []])))))
      = [first_service, second_service]
   \<and> sorted_unique service_key (services (after (run (Services_add first_service)
        (after (run (Services_add second_service) (document None [lib_b []]))))))
   \<and> sorted_unique (\<lambda>e. e) (external_references
        (after (run (External_references_add ''https://b.example'') (document None [lib_b []]))))
   \<and> external_references (after (run (External_references_add ''https://a.example'')
        (after (run (External_references_add ''https://b.example'') (document None [lib_b []])))))
      = [''https://a.example'', ''https://b.example'']
   \<and> sorted_unique (\<lambda>e. e) (external_references (after (run (External_references_add ''https://a.example'')
        (after (run (External_references_add ''https://b.example'') (document None [lib_b []]))))))"
proof -
  let ?b0 = "document None [lib_b []]"
  let ?b1 = "after (run (Services_add second_service) ?b0)"
  let ?b2 = "after (run (External_references_add ''https://b.example'') ?b0)"
  have h0: "sorted_unique component_key (components ?b0)"
    by (simp add: one_library sorted_unique_def)
  have k: "component_key (lib_a [''lib-b'']) = component_key (lib_a [])"
    by (simp add: component_key_def lib_a_def)
  have c1: "components (after (run (Components_add (lib_a [])) ?b0)) = [lib_a [], lib_b []]"
    by (simp add: components_after_add one_library)
      (simp add: add_def contains_def component_key_def lib_a_def lib_b_def)
  have h1: "sorted_unique service_key (services ?b1)"
    by (simp add: services_after_add one_library add_def contains_def sorted_unique_def)
  have s2: "services (after (run (Services_add first_service) ?b1))
      = [first_service, second_service]"
    by (simp add: services_after_add one_library)
      (simp add: add_def contains_def service_key_def first_service_def second_service_def)
  have h2: "sorted_unique (\<lambda>e. e) (external_references ?b2)"
    by (simp add: external_references_after_add one_library add_def contains_def sorted_unique_def)
  have e2: "external_references (after (run (External_references_add ''https://a.example'') ?b2))
      = [''https://a.example'', ''https://b.example'']"
    by (simp add: external_references_after_add one_library) (simp add: add_def contains_def)
  note T0 = collections_are_sorted_sets [of ?b0 "lib_a []" "lib_a [''lib-b'']" "[]" "[]"
      first_service first_service "[]" "[]" "''https://a.example''" "[]" "[]"
      "''be2c6502-7e9a-47db-9a66-e34f729810a3''" 0 "''ThisTool''" None None "None :: string list option"]
  note T1 = collections_are_sorted_sets [of ?b1 "lib_a []" "lib_a [''lib-b'']" "[]" "[]"
      first_service first_service "[]" "[]" "''https://a.example''" "[]" "[]"
      "''be2c6502-7e9a-47db-9a66-e34f729810a3''" 0 "''ThisTool''" None None "None :: string list option"]
  note T2 = collections_are_sorted_sets [of ?b2 "lib_a []" "lib_a [''lib-b'']" "[]" "[]"
      first_service first_service "[]" "[]" "''https://a.example''" "[]" "[]"
      "''be2c6502-7e9a-47db-9a66-e34f729810a3''" 0 "''ThisTool''" None None "None :: string list option"]
  have r0: "sorted_unique component_key (components (after (run (Components_add (lib_a [])) ?b0)))"
    using h0 T0 by blast
  have r1: "components (after (run (Components_add (lib_a [''lib-b'']))
        (after (run (Components_add (lib_a [])) ?b0))))
      = components (after (run (Components_add (lib_a [])) ?b0))"
    using k T0 by blast
  have r2: "sorted_unique service_key (services (after (run (Services_add first_service) ?b1)))"
    using h1 T1 by blast
  have r3: "sorted_unique (\<lambda>e. e)
      (external_references (after (run (External_references_add ''https://a.example'') ?b2)))"
    using h2 T2 by blast
  show ?thesis
    using h0 k c1 r0 r1 h1 s2 r2 h2 e2 r3 by (simp only: simp_thms)
qed

section \<open>Repeated validation\<close>

lemma validate_call_self:
  "self_bom (snd (validate_call st)) = self_bom st"
  by (simp add: validate_call_def warnings_warn_def Let_def split: option.splits)

lemma validate_call_outcome:
  "fst (validate_call st) = snd (validate (self_bom st))"
  by (simp add: validate_call_def validate_def Let_def split: option.splits)

lemma validate_call_stream:
  "warnings_stream (snd (validate_call st)) = warnings_stream st @ fst (validate (self_bom st))"
  by (simp add: validate_call_def validate_def warnings_warn_def Let_def split: option.splits)

lemma after_run_Validate: "after (run Validate b) = b"
  using validate_call_self [of "\<lparr>self_bom = b, warnings_stream = []\<rparr>"]
  by (cases "validate_call \<lparr>self_bom = b, warnings_stream = []\<rparr>") (simp add: run_def)

lemma outcome_run_Validate:
  "outcome (run Validate b) = (case snd (validate b) of Inl e \<Rightarrow> Inl e | Inr v \<Rightarrow> Inr (RBool v))"
  using validate_call_outcome [of "\<lparr>self_bom = b, warnings_stream = []\<rparr>"]
  by (cases "validate_call \<lparr>self_bom = b, warnings_stream = []\<rparr>") (simp add: run_def)

text \<open>
  Claim C4. A call of \<open>validate\<close> leaves the \<open>Bom\<close> in the state it found it (uuid,
  metadata, components, services and external references); only the stream of warnings may
  grow. A second call, in the state the first one left, has the outcome of the first. The
  outcome is fixed by the document alone: \<open>True\<close> when the declared identifiers are
  within the universe, and otherwise the exception with the set of unresolved references.
\<close>

theorem validate_idempotent:
  "self_bom (snd (validate_call st)) = self_bom st
   \<and> fst (validate_call (snd (validate_call st))) = fst (validate_call st)
   \<and> fst (validate_call st) =
       (if spec_declared (self_bom st) \<subseteq> spec_universe (self_bom st) then Inr True
        else Inl (UnknownComponentDependencyException
                    (spec_declared (self_bom st) - spec_universe (self_bom st))))
   \<and> uuid (self_bom (snd (validate_call st))) = uuid (self_bom st)
   \<and> metadata (self_bom (snd (validate_call st))) = metadata (self_bom st)
   \<and> components (self_bom (snd (validate_call st))) = components (self_bom st)
   \<and> services (self_bom (snd (validate_call st))) = services (self_bom st)
   \<and> external_references (self_bom (snd (validate_call st))) = external_references (self_bom st)
   \<and> after (run Validate b) = b
   \<and> outcome (run Validate (after (run Validate b))) = outcome (run Validate b)"
proof -
  have same: "self_bom (snd (validate_call st)) = self_bom st"
    by (rule validate_call_self)
  have again: "fst (validate_call (snd (validate_call st))) = fst (validate_call st)"
    by (simp only: validate_call_outcome same)
  have what: "fst (validate_call st) =
       (if spec_declared (self_bom st) \<subseteq> spec_universe (self_bom st) then Inr True
        else Inl (UnknownComponentDependencyException
                    (spec_declared (self_bom st) - spec_universe (self_bom st))))"
    by (simp add: validate_call_def Let_def all_dependency_bom_refs_spec all_bom_refs_spec
        split: option.splits)
  have outcome_run: "outcome (run Validate (after (run Validate b))) = outcome (run Validate b)"
    by (simp only: after_run_Validate)
  show ?thesis
    using same again what after_run_Validate [of b] outcome_run by simp
qed


lemma scenario_A_call:
  "validate_call \<lparr> self_bom = document (Some (product [])) [lib_a [''root'']], warnings_stream = [] \<rparr>
   = (Inr True, \<lparr> self_bom = document (Some (product [])) [lib_a [''root'']],
                  warnings_stream = [incomplete_graph_warning (product [])] \<rparr>)"
proof -
  have "component (metadata (document (Some (product [])) [lib_a [''root'']])) = Some (product [])"
    by (simp add: document_def Let_def)
  moreover have "dependencies (product []) = []"
    by (simp add: product_def)
  ultimately show ?thesis
    using scenario_A_sets by (simp add: validate_call_def warnings_warn_def Let_def)
qed

text \<open>
  Scenario B twice: both calls raise with \<open>lib-missing\<close> and the document is unchanged.
  Scenario A twice: the first call changes the state, by its warning, and the second call
  still returns \<open>True\<close>.
\<close>

theorem validate_idempotent_witness:
  "fst (validate_call \<lparr> self_bom = document (Some (product [])) [lib_a [''lib-missing'']],
                        warnings_stream = [] \<rparr>)
     = Inl (UnknownComponentDependencyException {''lib-missing''})
   \<and> fst (validate_call (snd (validate_call
        \<lparr> self_bom = document (Some (product [])) [lib_a [''lib-missing'']], warnings_stream = [] \<rparr>)))
     = Inl (UnknownComponentDependencyException {''lib-missing''})
   \<and> self_bom (snd (validate_call
        \<lparr> self_bom = document (Some (product [])) [lib_a [''lib-missing'']], warnings_stream = [] \<rparr>))
     = document (Some (product [])) [lib_a [''lib-missing'']]
   \<and> snd (validate_call
        \<lparr> self_bom = document (Some (product [])) [lib_a [''root'']], warnings_stream = [] \<rparr>)
     \<noteq> \<lparr> self_bom = document (Some (product [])) [lib_a [''root'']], warnings_stream = [] \<rparr>
   \<and> fst (validate_call (snd (validate_call
        \<lparr> self_bom = document (Some (product [])) [lib_a [''root'']], warnings_stream = [] \<rparr>)))
     = Inr True"
proof -
  let ?B = "\<lparr> self_bom = document (Some (product [])) [lib_a [''lib-missing'']],
             warnings_stream = [] \<rparr> :: (string, string) interpreter"
  let ?A = "\<lparr> self_bom = document (Some (product [])) [lib_a [''root'']],
             warnings_stream = [] \<rparr> :: (string, string) interpreter"
  have b: "fst (validate_call ?B) = Inl (UnknownComponentDependencyException {''lib-missing''})"
    using scenario_B_sets by (simp add: validate_call_def Let_def)
  have a: "fst (validate_call ?A) = Inr True"
    by (simp add: scenario_A_call)
  have changed: "snd (validate_call ?A) \<noteq> ?A"
    by (simp add: scenario_A_call)
  show ?thesis
    using b a changed
      validate_idempotent [of ?B "document None []"]
      validate_idempotent [of ?A "document None []"]
    by simp
qed

section \<open>The uuid and equality\<close>

lemma uuid_after_run:
  "\<not> assigns_uuid op \<Longrightarrow> uuid (after (run op b)) = uuid b"
proof (cases op)
  case Validate
  then show ?thesis
    by (simp add: after_run_Validate)
qed (simp_all add: run_def returns_def assigns_uuid_def)

lemma uuid_run_all:
  "\<forall>op \<in> set ops. \<not> assigns_uuid op \<Longrightarrow> uuid (run_all ops b) = uuid b"
proof (induction ops arbitrary: b)
  case Nil
  then show ?case by (simp add: run_all_def)
next
  case (Cons op ops)
  have "run_all (op # ops) b = run_all ops (after (run op b))"
    by (simp add: run_all_def)
  then show ?case
    using Cons by (simp add: uuid_after_run)
qed

text \<open>
  Claim C6, with the setter excepted. The uuid of a new \<open>Bom\<close> is the value generated
  at construction. No sequence of operations without an assignment to \<open>uuid\<close> changes it: \<open>validate\<close>,
  \<open>has_component\<close>, \<open>has_vulnerabilities\<close>, \<open>get_component_by_purl\<close>, \<open>get_urn_uuid\<close>,
  insertions into the three collections and assignments to the other attributes. An
  assignment to \<open>uuid\<close> replaces it by the assigned value.
\<close>

theorem uuid_changed_only_by_setter:
  "uuid (Bom_init fresh now ThisTool cs ss es) = fresh
   \<and> ((\<forall>op \<in> set ops. \<not> assigns_uuid op) \<longrightarrow> uuid (run_all ops b) = uuid b)
   \<and> uuid (after (run (Set_uuid u) b)) = u"
  by (simp add: uuid_run_all Bom_init_def run_def returns_def)

text \<open>
  Every operation but the assignment to \<open>uuid\<close>, one after the other, on a document with one
  component.
\<close>

theorem uuid_changed_only_by_setter_witness:
  "uuid (run_all
      [Validate, Has_component (lib_a []), Has_vulnerabilities,
       Get_component_by_purl (Some ''pkg:pypi/lib-a@0.10.2''), Get_urn_uuid,
       Components_add (lib_b []), Services_add \<lparr> service_name = ''my-first-service'',
         service_version = None, service_bom_ref = ''my-first-service'' \<rparr>,
       External_references_add ''https://cyclonedx.org'',
       Set_metadata (BomMetaData_init 0 ''ThisTool'' None (Some (product []))),
       Set_components [lib_a []], Set_services [], Set_external_references []]
      (document None [lib_a []]))
   = ''be2c6502-7e9a-47db-9a66-e34f729810a3''"
proof -
  let ?ops = "[Validate, Has_component (lib_a []), Has_vulnerabilities,
       Get_component_by_purl (Some ''pkg:pypi/lib-a@0.10.2''), Get_urn_uuid,
       Components_add (lib_b []), Services_add \<lparr> service_name = ''my-first-service'',
         service_version = None, service_bom_ref = ''my-first-service'' \<rparr>,
       External_references_add ''https://cyclonedx.org'',
       Set_metadata (BomMetaData_init 0 ''ThisTool'' None (Some (product []))),
       Set_components [lib_a []], Set_services [], Set_external_references []]
       :: (string, string) bom_op list"
  have h: "\<forall>op \<in> set ?ops. \<not> assigns_uuid op"
    by (simp add: assigns_uuid_def)
  have u: "uuid (document None [lib_a []]) = ''be2c6502-7e9a-47db-9a66-e34f729810a3''"
    by (simp add: document_def Bom_init_def Let_def)
  have "uuid (run_all ?ops (document None [lib_a []])) = uuid (document None [lib_a []])"
    using h uuid_changed_only_by_setter [of "''be2c6502-7e9a-47db-9a66-e34f729810a3''" 0
        "''ThisTool''" None None "None :: string list option" ?ops "document None [lib_a []]"
        "''17e3b199-dc0b-42ef-bfdd-1fa81a1e3eda''"]
    by blast
  then show ?thesis
    by (simp only: u)
qed

text \<open>
  Without the exception for the setter the statement fails: \<open>Bom\<close> has a public setter
  for \<open>uuid\<close>, and an assignment through it after construction changes the identifier.
\<close>

theorem uuid_setter_counterexample:
  "uuid (after (run (Set_uuid ''17e3b199-dc0b-42ef-bfdd-1fa81a1e3eda'') (document None [])))
   \<noteq> uuid (document None [])"
  by (simp add: run_def returns_def document_def Bom_init_def Let_def)

lemma BomMetaData_hash_raises:
  "BomMetaData_hash H m = Inl (TypeError ''unhashable type: SortedSet'')"
  by (simp add: BomMetaData_hash_def hash_tuple_def hash_SortedSet_def)

lemma Bom_hash_raises:
  "Bom_hash H b = Inl (TypeError ''unhashable type: SortedSet'')"
  by (simp add: Bom_hash_def hash_tuple_def BomMetaData_hash_raises)

text \<open>
  Claim C5. \<open>BomMetaData.__hash__\<close> hashes the tuple of timestamp, tools and component with
  the tools as the \<open>SortedSet\<close> they are, where \<open>Bom.__hash__\<close> turns its collections
  into tuples first. So \<open>hash\<close> of a \<open>BomMetaData\<close> raises \<open>TypeError\<close>, and with it
  \<open>hash\<close> of a \<open>Bom\<close>, and \<open>__eq__\<close> of either class raises for every pair of
  instances, whatever the hash functions are: also for an object compared with itself,
  whose attribute tuples match.
\<close>

theorem equality_raises_TypeError:
  "BomMetaData_eq H m (Instance m') = Inl (TypeError ''unhashable type: SortedSet'')
   \<and> Bom_eq H b (Instance b') = Inl (TypeError ''unhashable type: SortedSet'')
   \<and> BomMetaData_eq H m (Instance m) \<noteq> Inr True
   \<and> Bom_eq H b (Instance b) \<noteq> Inr True"
  by (simp add: BomMetaData_eq_def Bom_eq_def hash_eq_def BomMetaData_hash_raises Bom_hash_raises)

end
